theory Spec2Isabelle
  imports Main "HOL-Library.Sublist"
begin

section \<open>Python values and exceptions\<close>

text \<open>
  The values the modelled functions receive as arguments. The functions only ask a value
  whether it is \<open>None\<close>, which class it is an instance of, whether it is true, and for
  its \<open>str()\<close>; an object of any class without a constructor of its own is therefore
  kept as \<open>PObject\<close>: its class name, the text \<open>str()\<close> returns for it and its
  truth value (a float \<open>1.0 / 3\<close>, a list \<open>[1, 2, 3]\<close>, a dict \<open>{}\<close>).
  \<open>PUnicode\<close> is the \<open>unicode\<close> of Python 2 (kept to plain text here), \<open>PUUID\<close> a
  \<open>uuid.UUID\<close> instance, carried by its canonical text.
\<close>

datatype pyval =
    PNone
  | PBool bool
  | PInt int
  | PStr string
  | PUnicode string
  | PUUID string
  | PObject string string bool

datatype error =
    ValueError string
  | TypeError string
  | KeyError string
  | AttributeError string
  | RuntimeError pyval
  | NotExistent string
  | MultipleObjectsError string
  | ConnectionError string

text \<open>\<open>isinstance(v, int)\<close>: \<open>bool\<close> is a subclass of \<open>int\<close>.\<close>

fun is_int :: "pyval \<Rightarrow> bool" where
  "is_int (PInt _) = True"
| "is_int (PBool _) = True"
| "is_int _ = False"

text \<open>\<open>isinstance(v, six.string_types)\<close>: \<open>str\<close>, and \<open>unicode\<close> where it exists.\<close>

fun is_string_type :: "pyval \<Rightarrow> bool" where
  "is_string_type (PStr _) = True"
| "is_string_type (PUnicode _) = True"
| "is_string_type _ = False"

text \<open>\<open>isinstance(v, str)\<close> of Python 2, which a \<open>unicode\<close> is not.\<close>

fun is_str :: "pyval \<Rightarrow> bool" where
  "is_str (PStr _) = True"
| "is_str _ = False"

fun is_uuid_type :: "pyval \<Rightarrow> bool" where
  "is_uuid_type (PUUID _) = True"
| "is_uuid_type _ = False"

fun is_instance_of :: "string \<Rightarrow> pyval \<Rightarrow> bool" where
  "is_instance_of cls (PObject c _ _) = (c = cls)"
| "is_instance_of cls _ = False"

definition is_float :: "pyval \<Rightarrow> bool" where
  "is_float v = is_instance_of ''float'' v"

definition is_dict :: "pyval \<Rightarrow> bool" where
  "is_dict v = is_instance_of ''dict'' v"

text \<open>The truth value of a value, as \<open>if v\<close> and \<open>v and ...\<close> test it.\<close>

fun truthy :: "pyval \<Rightarrow> bool" where
  "truthy PNone = False"
| "truthy (PBool b) = b"
| "truthy (PInt i) = (i \<noteq> 0)"
| "truthy (PStr s) = (s \<noteq> [])"
| "truthy (PUnicode s) = (s \<noteq> [])"
| "truthy (PUUID _) = True"
| "truthy (PObject _ _ t) = t"

definition digit_char :: "nat \<Rightarrow> char" where
  "digit_char d = ''0123456789'' ! d"

fun nat_str :: "nat \<Rightarrow> string" where
  "nat_str n = (if n < 10 then [digit_char n] else nat_str (n div 10) @ [digit_char (n mod 10)])"

definition int_str :: "int \<Rightarrow> string" where
  "int_str i = (if i < 0 then CHR ''-'' # nat_str (nat (- i)) else nat_str (nat i))"

text \<open>\<open>str(v)\<close>.\<close>

fun py_str :: "pyval \<Rightarrow> string" where
  "py_str PNone = ''None''"
| "py_str (PBool b) = (if b then ''True'' else ''False'')"
| "py_str (PInt i) = int_str i"
| "py_str (PStr s) = s"
| "py_str (PUnicode s) = s"
| "py_str (PUUID s) = s"
| "py_str (PObject _ s _) = s"

section \<open>Entity loading: \<open>aiida/orm/utils/__init__.py\<close>\<close>

text \<open>
  The module \<open>aiida.orm.utils.loaders\<close> is imported, not defined, by the file: its
  classes are parameters. A loader class is known by whether it is a subclass of
  \<open>OrmEntityLoader\<close> and by its \<open>load_entity\<close> class method, the backend query, which
  returns the entity or raises. The arguments of one call of that method are a
  \<open>loader_call\<close>; \<open>load_entity\<close> returns, next to its outcome, the calls it made.
\<close>

datatype IdentifierType = ID | UUID | LABEL

record loader_call =
  call_identifier :: pyval
  call_identifier_type :: "IdentifierType option"
  call_sub_classes :: "string list option"
  call_query_with_dashes :: bool

record 'e entity_loader =
  is_OrmEntityLoader :: bool
  loader_load_entity :: "loader_call \<Rightarrow> error + 'e"

record 'e loaders =
  OrmEntityLoader_type :: string
  CodeEntityLoader :: "'e entity_loader"
  ComputerEntityLoader :: "'e entity_loader"
  GroupEntityLoader :: "'e entity_loader"
  NodeEntityLoader :: "'e entity_loader"

type_synonym 'e loaded = "(error + 'e) \<times> loader_call list"

definition raise :: "error \<Rightarrow> 'e loaded" where
  "raise e = (Inl e, [])"

definition invoke :: "'e entity_loader \<Rightarrow> pyval \<Rightarrow> IdentifierType option \<Rightarrow>
    string list option \<Rightarrow> bool \<Rightarrow> 'e loaded" where
  "invoke ldr identifier identifier_type sub_classes query_with_dashes =
     (let c = \<lparr>call_identifier = identifier, call_identifier_type = identifier_type,
                call_sub_classes = sub_classes, call_query_with_dashes = query_with_dashes\<rparr>
      in (loader_load_entity ldr c, [c]))"

definition load_entity :: "'e loaders \<Rightarrow> 'e entity_loader option \<Rightarrow> pyval \<Rightarrow> pyval \<Rightarrow> pyval \<Rightarrow>
    pyval \<Rightarrow> string list option \<Rightarrow> bool \<Rightarrow> 'e loaded" where
  "load_entity m entity_loader identifier pk uuid label sub_classes query_with_dashes =
     (case entity_loader of
        None \<Rightarrow> raise (TypeError (''entity_loader should be a sub class of '' @ OrmEntityLoader_type m))
      | Some ldr \<Rightarrow>
          if \<not> is_OrmEntityLoader ldr
          then raise (TypeError (''entity_loader should be a sub class of '' @ OrmEntityLoader_type m))
          else
            let inputs_provided =
                  count_list (map (\<lambda>v. v \<noteq> PNone) [identifier, pk, uuid, label]) True
            in
              if inputs_provided = 0
              then raise (ValueError
                ''one of the parameters 'identifier', pk', 'uuid' or 'label' has to be specified'')
              else if inputs_provided > 1
              then raise (ValueError
                ''only one of parameters 'identifier', pk', 'uuid' or 'label' has to be specified'')
              else if pk \<noteq> PNone then
                (if \<not> is_int pk then raise (TypeError ''a pk has to be an integer'')
                 else invoke ldr pk (Some ID) sub_classes query_with_dashes)
              else if uuid \<noteq> PNone then
                (if \<not> is_string_type uuid then raise (TypeError ''uuid has to be a string type'')
                 else invoke ldr uuid (Some UUID) sub_classes query_with_dashes)
              else if label \<noteq> PNone then
                (if \<not> is_string_type label then raise (TypeError ''label has to be a string type'')
                 else invoke ldr label (Some LABEL) sub_classes query_with_dashes)
              else invoke ldr (PStr (py_str identifier)) None sub_classes query_with_dashes)"

definition load_code :: "'e loaders \<Rightarrow> pyval \<Rightarrow> pyval \<Rightarrow> pyval \<Rightarrow> pyval \<Rightarrow>
    string list option \<Rightarrow> bool \<Rightarrow> 'e loaded" where
  "load_code m identifier pk uuid label sub_classes query_with_dashes =
     load_entity m (Some (CodeEntityLoader m)) identifier pk uuid label sub_classes query_with_dashes"

definition load_computer :: "'e loaders \<Rightarrow> pyval \<Rightarrow> pyval \<Rightarrow> pyval \<Rightarrow> pyval \<Rightarrow>
    string list option \<Rightarrow> bool \<Rightarrow> 'e loaded" where
  "load_computer m identifier pk uuid label sub_classes query_with_dashes =
     load_entity m (Some (ComputerEntityLoader m)) identifier pk uuid label sub_classes query_with_dashes"

definition load_group :: "'e loaders \<Rightarrow> pyval \<Rightarrow> pyval \<Rightarrow> pyval \<Rightarrow> pyval \<Rightarrow>
    string list option \<Rightarrow> bool \<Rightarrow> 'e loaded" where
  "load_group m identifier pk uuid label sub_classes query_with_dashes =
     load_entity m (Some (GroupEntityLoader m)) identifier pk uuid label sub_classes query_with_dashes"

definition load_node :: "'e loaders \<Rightarrow> pyval \<Rightarrow> pyval \<Rightarrow> pyval \<Rightarrow> pyval \<Rightarrow>
    string list option \<Rightarrow> bool \<Rightarrow> 'e loaded" where
  "load_node m identifier pk uuid label sub_classes query_with_dashes =
     load_entity m (Some (NodeEntityLoader m)) identifier pk uuid label sub_classes query_with_dashes"

text \<open>
  \<open>load_workflow\<close>. The class \<open>Workflow\<close> of \<open>aiida.orm.implementation\<close> is imported:
  its two class methods are parameters. \<open>type(v)\<close> is rendered as Python 3 prints a class.
\<close>

record 'w Workflow =
  get_subclass_from_pk :: "pyval \<Rightarrow> error + 'w"
  get_subclass_from_uuid :: "pyval \<Rightarrow> error + 'w"

fun type_name :: "pyval \<Rightarrow> string" where
  "type_name PNone = ''NoneType''"
| "type_name (PBool _) = ''bool''"
| "type_name (PInt _) = ''int''"
| "type_name (PStr _) = ''str''"
| "type_name (PUnicode _) = ''unicode''"
| "type_name (PUUID _) = ''uuid.UUID''"
| "type_name (PObject c _ _) = c"

definition type_repr :: "pyval \<Rightarrow> string" where
  "type_repr v = ''<class '' @ [CHR 0x27] @ type_name v @ [CHR 0x27] @ ''>''"

definition load_workflow :: "'w Workflow \<Rightarrow> pyval \<Rightarrow> pyval \<Rightarrow> pyval \<Rightarrow> error + 'w" where
  "load_workflow W wf_id pk uuid =
     (let none_count = (of_bool (wf_id = PNone) + of_bool (pk = PNone) + of_bool (uuid = PNone) :: int)
      in
        if none_count = 3
        then Inl (ValueError ''one of the parameters 'wf_id', 'pk' and 'uuid' has to be supplied'')
        else if none_count < 2
        then Inl (ValueError ''only one of parameters 'wf_id', 'pk' and 'uuid' has to be supplied'')
        else if wf_id \<noteq> PNone then
          (let wf_id = (if truthy wf_id \<and> is_uuid_type wf_id then PStr (py_str wf_id) else wf_id)
           in
             if is_string_type wf_id then get_subclass_from_uuid W wf_id
             else if is_int wf_id then get_subclass_from_pk W wf_id
             else Inl (ValueError
               ([CHR 0x27] @ ''wf_id' has to be either string, unicode, integer or UUID instance, ''
                 @ type_repr wf_id @ '' given'')))
        else if pk \<noteq> PNone then
          (if is_int pk then get_subclass_from_pk W pk
           else Inl (ValueError ([CHR 0x27] @ ''pk' has to be an integer'')))
        else
          (let uuid = (if truthy uuid \<and> is_uuid_type uuid then PStr (py_str uuid) else uuid)
           in
             if is_string_type uuid then get_subclass_from_uuid W uuid
             else Inl (ValueError
               ([CHR 0x27] @ ''uuid' has to be a string, unicode or a UUID instance''))))"

section \<open>The Materials Project importer: \<open>aiida/tools/dbimporters/plugins/matp.py\<close>\<close>

text \<open>
  Keyword arguments (\<open>**kwargs\<close>) and the JSON object of a response are dictionaries with
  string keys. \<open>d[k]\<close> raises \<open>KeyError\<close> for a key that is missing.
\<close>

type_synonym pydict = "string \<rightharpoonup> pyval"

definition getitem :: "pydict \<Rightarrow> string \<Rightarrow> error + pyval" where
  "getitem d k = (case d k of None \<Rightarrow> Inl (KeyError k) | Some v \<Rightarrow> Inr v)"

text \<open>\<open>try: body except AttributeError: raise e\<close>: every other exception passes through.\<close>

fun except_AttributeError :: "error + 'a \<Rightarrow> error \<Rightarrow> error + 'a" where
  "except_AttributeError (Inl (AttributeError _)) e = Inl e"
| "except_AttributeError r e = r"

text \<open>\<open>v == s\<close> for a string literal \<open>s\<close>.\<close>

fun eq_str :: "pyval \<Rightarrow> string \<Rightarrow> bool" where
  "eq_str (PStr t) s = (t = s)"
| "eq_str (PUnicode t) s = (t = s)"
| "eq_str _ s = False"

text \<open>The class attribute \<open>_collection\<close>, which nothing assigns to.\<close>

definition collection_attr :: string where
  "collection_attr = ''structures''"

record MatProjSearchResults =
  results :: "pyval list"
  return_class :: string

text \<open>
  \<open>self._mpr.query(criteria=..., properties=...)\<close> is pymatgen's REST client: a parameter,
  which returns the entries or raises.
\<close>

type_synonym mpr_query = "pyval \<Rightarrow> string list \<Rightarrow> error + pyval list"

definition find :: "mpr_query \<Rightarrow> pyval \<Rightarrow> string list \<Rightarrow> error + pyval list" where
  "find mpr query collection = mpr query collection"

definition query :: "mpr_query \<Rightarrow> pydict \<Rightarrow> error + MatProjSearchResults" where
  "query mpr kwargs =
     (case except_AttributeError (getitem kwargs ''query'')
             (AttributeError (''Make sure the supplied dictionary has `query` as a key. This ''
                @ ''should containg a dictionary with the right query needed.'')) of
        Inl e \<Rightarrow> Inl e
      | Inr query \<Rightarrow>
          (case except_AttributeError (getitem kwargs ''collection'')
                  (AttributeError ''Make sure the supplied dictionary has `collection` as a key.'') of
             Inl e \<Rightarrow> Inl e
           | Inr collection \<Rightarrow>
               if \<not> is_dict query then Inl (TypeError ''The query argument should be a dictionary'')
               else
                 let collection = (if collection = PNone then PStr collection_attr else collection)
                 in
                   if eq_str collection ''structure'' then
                     (case find mpr query [''structure'', ''material_id'', ''cif''] of
                        Inl e \<Rightarrow> Inl e
                      | Inr entries \<Rightarrow>
                          Inr \<lparr>results = entries, return_class = ''MatProjCifEntry''\<rparr>)
                   else Inl (ValueError (''Unsupported collection: '' @ py_str collection))))"

text \<open>
  The importer object: its attribute \<open>_api_key\<close>, \<open>None\<close> as long as nothing has assigned
  it. \<open>requests.get(url, headers=...).json()\<close> is the network: a parameter, which returns
  the JSON object of the response or raises. A method that assigns to \<open>self\<close> returns the
  object as it has left it, also when it raises.
\<close>

record MatProjImporter =
  api_key_attr :: "pyval option"

type_synonym requests_get = "string \<Rightarrow> pydict \<Rightarrow> error + pydict"

definition verify_api_key :: "requests_get \<Rightarrow> MatProjImporter \<Rightarrow> error + unit" where
  "verify_api_key get self =
     (case api_key_attr self of
        None \<Rightarrow> Inl (AttributeError
          ([CHR 0x27] @ ''MatProjImporter' object has no attribute '_api_key'' @ [CHR 0x27]))
      | Some key \<Rightarrow>
          (case get ''https://www.materialsproject.org/rest/v1/api_check'' [''X-API-KEY'' \<mapsto> key] of
             Inl e \<Rightarrow> Inl e
           | Inr response_content \<Rightarrow>
               (case response_content ''error'' of
                  Some err \<Rightarrow> Inl (RuntimeError err)
                | None \<Rightarrow>
                    (case getitem response_content ''valid_response'' of
                       Inl e \<Rightarrow> Inl e
                     | Inr valid_response \<Rightarrow>
                         if \<not> truthy valid_response
                         then Inl (RuntimeError (PStr
                           ''Materials Project did not give a valid response for the API key check.''))
                         else
                           (case getitem response_content ''api_key_valid'' of
                              Inl e \<Rightarrow> Inl e
                            | Inr api_key_valid \<Rightarrow>
                                if \<not> truthy api_key_valid
                                then Inl (RuntimeError (PStr
                                  ''Your API key for Materials Project is not valid.''))
                                else Inr ())))))"

definition setup_db :: "(string \<rightharpoonup> string) \<Rightarrow> requests_get \<Rightarrow> MatProjImporter \<Rightarrow> pydict \<Rightarrow>
    MatProjImporter \<times> (error + unit)" where
  "setup_db environ get self kwargs =
     (case getitem kwargs ''api_key'' of
        Inl e \<Rightarrow> (self, Inl e)
      | Inr api_key \<Rightarrow>
          (case (if api_key = PNone
                 then (case environ ''PMG_MAPI_KEY'' of
                         Some k \<Rightarrow> Inr (self\<lparr>api_key_attr := Some (PStr k)\<rparr>)
                       | None \<Rightarrow> Inl (ValueError
                           (''API key not supplied and PMG_MAPI_KEY environment ''
                            @ ''variable not set. Either pass it when initializing the class, ''
                            @ ''or set the environment variable PMG_MAPI_KEY to your API key.'')))
                 else Inr self) of
             Inl e \<Rightarrow> (self, Inl e)
           | Inr self1 \<Rightarrow>
               (let self2 = self1\<lparr>api_key_attr := Some api_key\<rparr>
                in (self2, verify_api_key get self2))))"

section \<open>The query clauses of the COD importer\<close>

text \<open>
  Modelled from the spec: the clause builders of \<open>CodDbImporter\<close>
  (\<open>aiida/tools/dbimporters/plugins/cod.py\<close> is not among the sources; only
  \<open>TestCodDbImporter.test_datatype_checks\<close> calls them, as \<open>method(key, alias, values)\<close>).
  The spec has them "raise specific \<open>ValueError\<close> messages for each invalid input type per
  clause kind", and the test tabulates which message each builder gives for an \<open>int\<close>, a
  \<open>str\<close>, a \<open>unicode\<close>, a \<open>float\<close> and a \<open>list\<close>. A builder checks the class of every
  value against the classes its message names; \<open>_int_clause\<close> then converts every value
  with \<open>int()\<close>, which raises for a string that is no integer literal (the fifth message
  of the test). The SQL text a builder returns is not modelled: a builder that raises
  nothing returns \<open>()\<close>.
\<close>

definition incorrect_value :: "string \<Rightarrow> string \<Rightarrow> error" where
  "incorrect_value alias accepted =
     ValueError (''incorrect value for keyword '' @ [CHR 0x27] @ alias @ [CHR 0x27]
                 @ '' -- only '' @ accepted @ '' are accepted'')"

fun check_values :: "(pyval \<Rightarrow> bool) \<Rightarrow> error \<Rightarrow> pyval list \<Rightarrow> error + unit" where
  "check_values accepted e [] = Inr ()"
| "check_values accepted e (v # vs) = (if accepted v then check_values accepted e vs else Inl e)"

definition is_space :: "char \<Rightarrow> bool" where
  "is_space c = (c \<in> set [CHR '' '', CHR 0x09, CHR 0x0A, CHR 0x0B, CHR 0x0C, CHR 0x0D])"

definition is_digit :: "char \<Rightarrow> bool" where
  "is_digit c = (c \<in> set ''0123456789'')"

definition strip :: "string \<Rightarrow> string" where
  "strip s = rev (dropWhile is_space (rev (dropWhile is_space s)))"

definition digits_value :: "string \<Rightarrow> int" where
  "digits_value ds = foldl (\<lambda>a c. 10 * a + (int (of_char c) - 48)) 0 ds"

text \<open>\<open>int(s)\<close> for a string: optional blanks, an optional sign, decimal digits.\<close>

definition int_of_string :: "string \<Rightarrow> error + int" where
  "int_of_string s =
     (let t = strip s;
          negative = (t \<noteq> [] \<and> hd t = CHR ''-'');
          ds = (if t \<noteq> [] \<and> (hd t = CHR ''-'' \<or> hd t = CHR ''+'') then tl t else t)
      in if ds \<noteq> [] \<and> list_all is_digit ds
         then Inr (if negative then - digits_value ds else digits_value ds)
         else Inl (ValueError (''invalid literal for int() with base 10: ''
                               @ [CHR 0x27] @ s @ [CHR 0x27])))"

fun py_int :: "pyval \<Rightarrow> error + int" where
  "py_int (PInt i) = Inr i"
| "py_int (PBool b) = Inr (if b then 1 else 0)"
| "py_int (PStr s) = int_of_string s"
| "py_int (PUnicode s) = int_of_string s"
| "py_int v = Inl (TypeError ''int() argument must be a string or a number'')"

fun int_all :: "pyval list \<Rightarrow> error + int list" where
  "int_all [] = Inr []"
| "int_all (v # vs) =
     (case py_int v of
        Inl e \<Rightarrow> Inl e
      | Inr i \<Rightarrow> (case int_all vs of Inl e \<Rightarrow> Inl e | Inr is \<Rightarrow> Inr (i # is)))"

definition int_clause :: "string \<Rightarrow> string \<Rightarrow> pyval list \<Rightarrow> error + unit" where
  "int_clause key alias vals =
     (case check_values (\<lambda>e. is_int e \<or> is_string_type e)
             (incorrect_value alias ''integers and strings'') vals of
        Inl e \<Rightarrow> Inl e
      | Inr _ \<Rightarrow> (case int_all vals of Inl e \<Rightarrow> Inl e | Inr _ \<Rightarrow> Inr ()))"

definition str_exact_clause :: "string \<Rightarrow> string \<Rightarrow> pyval list \<Rightarrow> error + unit" where
  "str_exact_clause key alias vals =
     check_values (\<lambda>e. is_int e \<or> is_string_type e)
       (incorrect_value alias ''integers and strings'') vals"

definition formula_clause :: "string \<Rightarrow> string \<Rightarrow> pyval list \<Rightarrow> error + unit" where
  "formula_clause key alias vals =
     check_values is_str (incorrect_value alias ''strings'') vals"

definition str_fuzzy_clause :: "string \<Rightarrow> string \<Rightarrow> pyval list \<Rightarrow> error + unit" where
  "str_fuzzy_clause key alias vals =
     check_values (\<lambda>e. is_int e \<or> is_string_type e)
       (incorrect_value alias ''integers and strings'') vals"

definition composition_clause :: "string \<Rightarrow> string \<Rightarrow> pyval list \<Rightarrow> error + unit" where
  "composition_clause key alias vals =
     check_values is_string_type (incorrect_value alias ''strings'') vals"

definition volume_clause :: "string \<Rightarrow> string \<Rightarrow> pyval list \<Rightarrow> error + unit" where
  "volume_clause key alias vals =
     check_values (\<lambda>e. is_int e \<or> is_float e)
       (incorrect_value alias ''integers and floats'') vals"

text \<open>
  The test itself: its values, its methods, and the message it reads off each call
  (the empty string when nothing is raised; it catches \<open>ValueError\<close> only).
\<close>

definition test_values :: "pyval list" where
  "test_values = [PInt 10, PStr ''text'', PUnicode ''text'', PStr ''10'',
                  PObject ''float'' ''0.333333333333'' True, PObject ''list'' ''[1, 2, 3]'' True]"

definition test_methods :: "(string \<Rightarrow> string \<Rightarrow> pyval list \<Rightarrow> error + unit) list" where
  "test_methods = [int_clause, str_exact_clause, formula_clause, str_fuzzy_clause,
                   composition_clause, volume_clause]"

definition test_messages :: "string list" where
  "test_messages =
     ['''',
      ''incorrect value for keyword 'test' -- only integers and strings are accepted'',
      ''incorrect value for keyword 'test' -- only strings are accepted'',
      ''incorrect value for keyword 'test' -- only integers and floats are accepted'',
      ''invalid literal for int() with base 10: 'text'' @ [CHR 0x27]]"

fun caught_message :: "error + unit \<Rightarrow> string option" where
  "caught_message (Inr _) = Some ''''"
| "caught_message (Inl (ValueError msg)) = Some msg"
| "caught_message (Inl _) = None"

section \<open>The archive commands\<close>

text \<open>
  Modelled from the spec: the commands \<open>verdi archive migrate\<close> and \<open>verdi archive inspect\<close>
  (\<open>aiida/cmdline/commands/cmd_archive.py\<close> and the migrations of
  \<open>aiida.tools.importexport\<close> are not among the sources; only their tests are). By the
  spec an archive is "a zip or tar.gz container holding JSON metadata (including an
  \<open>export_version\<close> field) plus serialized node/entity data", "schema versions are
  monotonically numbered (e.g., 0.1 \<rightarrow> EXPORT_VERSION) and migration is expected to be
  chainable across versions", \<open>migrate\<close> has flags for the format (\<open>-F\<close>), force-overwrite
  (\<open>-f\<close>), in-place migration (\<open>-i\<close>) and the target version (\<open>--version\<close>) and "produces a
  valid zip/tar.gz whose metadata \<open>export_version\<close> equals the requested target version",
  and \<open>inspect\<close> "on a corrupt archive reports "corrupt archive" and a non-zero/exception
  result". A version \<open>0.n\<close> is the number \<open>n\<close>. \<open>EXPORT_VERSION\<close> and the migration of the
  data from one version to the next are parameters. Where the spec and the tests say
  nothing (a target that is not newer than the archive, a missing input file) the
  command is taken to fail.
\<close>

datatype archive_format = Zip | ZipUncompressed | TarGz

record 'd archive =
  export_version :: nat
  data :: 'd

text \<open>What a file holds: a container of an archive, or other bytes (none, for the empty file).\<close>

datatype 'd file_content = Container archive_format "'d archive" | Other string

record 'd migrations =
  EXPORT_VERSION :: nat
  migrate_step :: "nat \<Rightarrow> 'd \<Rightarrow> 'd"

record cli_result =
  exit_code :: nat
  cli_output :: string

record migrate_options =
  input_file :: string
  output_file :: "string option"
  in_place :: bool
  force :: bool
  version :: "nat option"
  archive_format :: archive_format

definition is_valid_zip :: "'d file_content \<Rightarrow> bool" where
  "is_valid_zip f = (case f of Container Zip _ \<Rightarrow> True | Container ZipUncompressed _ \<Rightarrow> True | _ \<Rightarrow> False)"

definition is_tarfile :: "'d file_content \<Rightarrow> bool" where
  "is_tarfile f = (case f of Container TarGz _ \<Rightarrow> True | _ \<Rightarrow> False)"

definition metadata_export_version :: "'d file_content \<Rightarrow> nat option" where
  "metadata_export_version f =
     (case f of Container _ a \<Rightarrow> Some (export_version a) | Other _ \<Rightarrow> None)"

text \<open>The chain of migrations: one version at a time, up to the target.\<close>

function migrate_archive :: "'d migrations \<Rightarrow> nat \<Rightarrow> 'd archive \<Rightarrow> 'd archive" where
  "migrate_archive M target a =
     (if export_version a < target
      then migrate_archive M target
             (a\<lparr>export_version := export_version a + 1,
                data := migrate_step M (export_version a) (data a)\<rparr>)
      else a)"
  by pat_completeness auto
termination
  by (relation "measure (\<lambda>(M, target, a). target - export_version a)") auto

declare migrate_archive.simps [simp del]

definition failure :: "string \<Rightarrow> cli_result" where
  "failure msg = \<lparr>exit_code = 1, cli_output = msg\<rparr>"

definition success :: "string \<Rightarrow> cli_result" where
  "success msg = \<lparr>exit_code = 0, cli_output = msg\<rparr>"

text \<open>Where the command writes: the input file itself, or the output file, which must be new unless forced.\<close>

definition destination :: "(string \<rightharpoonup> 'd file_content) \<Rightarrow> migrate_options \<Rightarrow> string + string" where
  "destination fs opts =
     (if in_place opts then
        (case output_file opts of
           Some _ \<Rightarrow> Inl ''output file specified together with --in-place''
         | None \<Rightarrow> Inr (input_file opts))
      else
        (case output_file opts of
           None \<Rightarrow> Inl ''no output file specified''
         | Some p \<Rightarrow> if fs p \<noteq> None \<and> \<not> force opts
                     then Inl ''the output file already exists'' else Inr p))"

definition migrate :: "'d migrations \<Rightarrow> (string \<rightharpoonup> 'd file_content) \<Rightarrow> migrate_options \<Rightarrow>
    (string \<rightharpoonup> 'd file_content) \<times> cli_result" where
  "migrate M fs opts =
     (case destination fs opts of
        Inl msg \<Rightarrow> (fs, failure msg)
      | Inr dest \<Rightarrow>
          (case fs (input_file opts) of
             None \<Rightarrow> (fs, failure ''no such file'')
           | Some (Other _) \<Rightarrow> (fs, failure ''corrupt archive'')
           | Some (Container _ a) \<Rightarrow>
               (let target = (case version opts of None \<Rightarrow> EXPORT_VERSION M | Some v \<Rightarrow> v)
                in if export_version a < target \<and> target \<le> EXPORT_VERSION M
                   then (fs(dest \<mapsto> Container (archive_format opts) (migrate_archive M target a)),
                         success '''')
                   else (fs, failure ''no migration pathway available''))))"

definition inspect :: "('d archive \<Rightarrow> string) \<Rightarrow> (string \<rightharpoonup> 'd file_content) \<Rightarrow> string \<Rightarrow> cli_result" where
  "inspect describe fs path =
     (case fs path of
        None \<Rightarrow> failure ''no such file''
      | Some (Other _) \<Rightarrow> failure ''corrupt archive''
      | Some (Container _ a) \<Rightarrow> success (describe a))"

text \<open>What the tests check of the file a migration leaves at \<open>dest\<close>.\<close>

definition valid_archive_at :: "(string \<rightharpoonup> 'd file_content) \<Rightarrow> string \<Rightarrow> archive_format \<Rightarrow> nat \<Rightarrow> bool" where
  "valid_archive_at fs dest fmt v =
     (case fs dest of
        None \<Rightarrow> False
      | Some f \<Rightarrow> (if fmt = TarGz then is_tarfile f else is_valid_zip f)
                  \<and> metadata_export_version f = Some v)"

section \<open>Example inputs\<close>

definition example_loader :: "nat entity_loader" where
  "example_loader = \<lparr>is_OrmEntityLoader = True, loader_load_entity = (\<lambda>c. Inr 7)\<rparr>"

definition example_loaders :: "nat loaders" where
  "example_loaders =
     \<lparr>OrmEntityLoader_type = ''<class 'type'>'', CodeEntityLoader = example_loader,
      ComputerEntityLoader = example_loader, GroupEntityLoader = example_loader,
      NodeEntityLoader = example_loader\<rparr>"

definition example_Workflow :: "(string \<times> pyval) Workflow" where
  "example_Workflow = \<lparr>get_subclass_from_pk = (\<lambda>v. Inr (''pk'', v)),
                        get_subclass_from_uuid = (\<lambda>v. Inr (''uuid'', v))\<rparr>"

definition example_query :: pyval where
  "example_query = PObject ''dict'' ''{}'' False"

definition example_mpr :: mpr_query where
  "example_mpr = (\<lambda>criteria properties. Inr [])"

definition example_get :: requests_get where
  "example_get = (\<lambda>url headers.
     Inr [''valid_response'' \<mapsto> PBool True, ''api_key_valid'' \<mapsto> PBool True])"

definition example_migrations :: "nat list migrations" where
  "example_migrations = \<lparr>EXPORT_VERSION = 9, migrate_step = (\<lambda>v d. d @ [v])\<rparr>"

definition example_fs :: "string \<rightharpoonup> nat list file_content" where
  "example_fs = [''export_v0.1_simple.aiida'' \<mapsto> Container Zip \<lparr>export_version = 1, data = []\<rparr>,
                 ''empty.aiida'' \<mapsto> Other []]"

section \<open>Properties of the entity loaders\<close>

lemma load_entity_count:
  assumes "is_OrmEntityLoader ldr"
    and "length (filter (\<lambda>v. v \<noteq> PNone) [identifier, pk, uuid, label]) \<noteq> 1"
  shows "load_entity m (Some ldr) identifier pk uuid label sc qd =
     (Inl (ValueError
        (if identifier = PNone \<and> pk = PNone \<and> uuid = PNone \<and> label = PNone
         then ''one of the parameters 'identifier', pk', 'uuid' or 'label' has to be specified''
         else ''only one of parameters 'identifier', pk', 'uuid' or 'label' has to be specified'')), [])"
  using assms
  by (auto simp: load_entity_def raise_def Let_def)

text \<open>
  Claim C1. A call of \<open>load_entity\<close> with a valid loader class in which none, or more than
  one, of \<open>identifier\<close>, \<open>pk\<close>, \<open>uuid\<close> and \<open>label\<close> is given (is not \<open>None\<close>) raises
  \<open>ValueError\<close>, and the list of calls made to the backend loader is empty. The same
  holds for \<open>load_code\<close>, \<open>load_computer\<close>, \<open>load_group\<close> and \<open>load_node\<close>, each with its
  own loader class.
\<close>

theorem load_entity_requires_exactly_one:
  assumes "length (filter (\<lambda>v. v \<noteq> PNone) [identifier, pk, uuid, label]) \<noteq> 1"
  shows "(is_OrmEntityLoader ldr \<longrightarrow>
            (\<exists>msg. load_entity m (Some ldr) identifier pk uuid label sc qd = (Inl (ValueError msg), [])))
       \<and> (is_OrmEntityLoader (CodeEntityLoader m) \<longrightarrow>
            (\<exists>msg. load_code m identifier pk uuid label sc qd = (Inl (ValueError msg), [])))
       \<and> (is_OrmEntityLoader (ComputerEntityLoader m) \<longrightarrow>
            (\<exists>msg. load_computer m identifier pk uuid label sc qd = (Inl (ValueError msg), [])))
       \<and> (is_OrmEntityLoader (GroupEntityLoader m) \<longrightarrow>
            (\<exists>msg. load_group m identifier pk uuid label sc qd = (Inl (ValueError msg), [])))
       \<and> (is_OrmEntityLoader (NodeEntityLoader m) \<longrightarrow>
            (\<exists>msg. load_node m identifier pk uuid label sc qd = (Inl (ValueError msg), [])))"
  using assms
  by (simp add: load_entity_count load_code_def load_computer_def load_group_def load_node_def)

theorem load_entity_requires_exactly_one_witness:
  "length (filter (\<lambda>v. v \<noteq> PNone) [PNone, PInt 1, PStr ''ab'', PNone]) \<noteq> 1
   \<and> length (filter (\<lambda>v. v \<noteq> PNone) [PNone, PNone, PNone, PNone]) \<noteq> 1
   \<and> is_OrmEntityLoader example_loader
   \<and> is_OrmEntityLoader (CodeEntityLoader example_loaders)
   \<and> is_OrmEntityLoader (ComputerEntityLoader example_loaders)
   \<and> is_OrmEntityLoader (GroupEntityLoader example_loaders)
   \<and> is_OrmEntityLoader (NodeEntityLoader example_loaders)
   \<and> (\<exists>msg. load_entity example_loaders (Some example_loader) PNone (PInt 1) (PStr ''ab'') PNone None True
          = (Inl (ValueError msg), []))
   \<and> (\<exists>msg. load_code example_loaders PNone (PInt 1) (PStr ''ab'') PNone None True
          = (Inl (ValueError msg), []))
   \<and> (\<exists>msg. load_computer example_loaders PNone (PInt 1) (PStr ''ab'') PNone None True
          = (Inl (ValueError msg), []))
   \<and> (\<exists>msg. load_group example_loaders PNone (PInt 1) (PStr ''ab'') PNone None True
          = (Inl (ValueError msg), []))
   \<and> (\<exists>msg. load_node example_loaders PNone PNone PNone PNone None True
          = (Inl (ValueError msg), []))"
  using load_entity_requires_exactly_one
          [of PNone "PInt 1" "PStr ''ab''" PNone example_loader example_loaders None True]
        load_entity_requires_exactly_one
          [of PNone PNone PNone PNone example_loader example_loaders None True]
  by (simp add: example_loader_def example_loaders_def)

lemma load_entity_pk:
  assumes "is_OrmEntityLoader ldr" "pk \<noteq> PNone" "identifier = PNone" "uuid = PNone" "label = PNone"
  shows "load_entity m (Some ldr) identifier pk uuid label sc qd =
     (if is_int pk then invoke ldr pk (Some ID) sc qd
      else raise (TypeError ''a pk has to be an integer''))"
  using assms by (simp add: load_entity_def)

lemma load_entity_uuid:
  assumes "is_OrmEntityLoader ldr" "uuid \<noteq> PNone" "identifier = PNone" "pk = PNone" "label = PNone"
  shows "load_entity m (Some ldr) identifier pk uuid label sc qd =
     (if is_string_type uuid then invoke ldr uuid (Some UUID) sc qd
      else raise (TypeError ''uuid has to be a string type''))"
  using assms by (simp add: load_entity_def)

lemma load_entity_label:
  assumes "is_OrmEntityLoader ldr" "label \<noteq> PNone" "identifier = PNone" "pk = PNone" "uuid = PNone"
  shows "load_entity m (Some ldr) identifier pk uuid label sc qd =
     (if is_string_type label then invoke ldr label (Some LABEL) sc qd
      else raise (TypeError ''label has to be a string type''))"
  using assms by (simp add: load_entity_def)

lemma load_entity_identifier:
  assumes "is_OrmEntityLoader ldr" "identifier \<noteq> PNone" "label = PNone" "pk = PNone" "uuid = PNone"
  shows "load_entity m (Some ldr) identifier pk uuid label sc qd =
     invoke ldr (PStr (py_str identifier)) None sc qd"
  using assms by (simp add: load_entity_def)

lemma exactly_one_cases:
  assumes "length (filter (\<lambda>v. v \<noteq> PNone) [identifier, pk, uuid, label]) = 1"
  shows "(identifier \<noteq> PNone \<and> pk = PNone \<and> uuid = PNone \<and> label = PNone)
       \<or> (identifier = PNone \<and> pk \<noteq> PNone \<and> uuid = PNone \<and> label = PNone)
       \<or> (identifier = PNone \<and> pk = PNone \<and> uuid \<noteq> PNone \<and> label = PNone)
       \<or> (identifier = PNone \<and> pk = PNone \<and> uuid = PNone \<and> label \<noteq> PNone)"
  using assms by (auto split: if_splits)

text \<open>
  Claim C2. In a call of \<open>load_entity\<close> with a valid loader class and exactly one of the
  four identifiers given: a \<open>pk\<close> that is no integer, a \<open>uuid\<close> that is no string and a
  \<open>label\<close> that is no string raise \<open>TypeError\<close> (and the backend loader is not called);
  a \<open>pk\<close>, \<open>uuid\<close> or \<open>label\<close> of the right type makes exactly one call of the backend
  loader, with that value and \<open>IdentifierType.ID\<close>, \<open>UUID\<close> or \<open>LABEL\<close>, and the outcome of
  \<open>load_entity\<close> is the outcome of that call; a bare \<open>identifier\<close> is passed on as its
  \<open>str()\<close> with no identifier type.
\<close>

theorem load_entity_type_checks:
  assumes "is_OrmEntityLoader ldr"
    and "length (filter (\<lambda>v. v \<noteq> PNone) [identifier, pk, uuid, label]) = 1"
  shows "(pk \<noteq> PNone \<and> \<not> is_int pk \<longrightarrow>
            (\<exists>msg. load_entity m (Some ldr) identifier pk uuid label sc qd = (Inl (TypeError msg), [])))
       \<and> (uuid \<noteq> PNone \<and> \<not> is_string_type uuid \<longrightarrow>
            (\<exists>msg. load_entity m (Some ldr) identifier pk uuid label sc qd = (Inl (TypeError msg), [])))
       \<and> (label \<noteq> PNone \<and> \<not> is_string_type label \<longrightarrow>
            (\<exists>msg. load_entity m (Some ldr) identifier pk uuid label sc qd = (Inl (TypeError msg), [])))
       \<and> (pk \<noteq> PNone \<and> is_int pk \<longrightarrow>
            (let c = \<lparr>call_identifier = pk, call_identifier_type = Some ID,
                       call_sub_classes = sc, call_query_with_dashes = qd\<rparr>
             in load_entity m (Some ldr) identifier pk uuid label sc qd = (loader_load_entity ldr c, [c])))
       \<and> (uuid \<noteq> PNone \<and> is_string_type uuid \<longrightarrow>
            (let c = \<lparr>call_identifier = uuid, call_identifier_type = Some UUID,
                       call_sub_classes = sc, call_query_with_dashes = qd\<rparr>
             in load_entity m (Some ldr) identifier pk uuid label sc qd = (loader_load_entity ldr c, [c])))
       \<and> (label \<noteq> PNone \<and> is_string_type label \<longrightarrow>
            (let c = \<lparr>call_identifier = label, call_identifier_type = Some LABEL,
                       call_sub_classes = sc, call_query_with_dashes = qd\<rparr>
             in load_entity m (Some ldr) identifier pk uuid label sc qd = (loader_load_entity ldr c, [c])))
       \<and> (identifier \<noteq> PNone \<longrightarrow>
            (let c = \<lparr>call_identifier = PStr (py_str identifier), call_identifier_type = None,
                       call_sub_classes = sc, call_query_with_dashes = qd\<rparr>
             in load_entity m (Some ldr) identifier pk uuid label sc qd = (loader_load_entity ldr c, [c])))"
  using exactly_one_cases [OF assms(2)] assms(1)
  by (elim disjE conjE)
     (simp_all add: load_entity_pk load_entity_uuid load_entity_label load_entity_identifier
        invoke_def raise_def Let_def)

theorem load_entity_type_checks_witness:
  "is_OrmEntityLoader example_loader
   \<and> length (filter (\<lambda>v. v \<noteq> PNone) [PNone, PStr ''12'', PNone, PNone]) = 1
   \<and> length (filter (\<lambda>v. v \<noteq> PNone) [PNone, PInt 12, PNone, PNone]) = 1
   \<and> length (filter (\<lambda>v. v \<noteq> PNone) [PNone, PNone, PInt 12, PNone]) = 1
   \<and> length (filter (\<lambda>v. v \<noteq> PNone) [PNone, PNone, PStr ''ab12'', PNone]) = 1
   \<and> length (filter (\<lambda>v. v \<noteq> PNone) [PNone, PNone, PNone, PInt 3]) = 1
   \<and> length (filter (\<lambda>v. v \<noteq> PNone) [PNone, PNone, PNone, PStr ''pw'']) = 1
   \<and> length (filter (\<lambda>v. v \<noteq> PNone) [PInt 12, PNone, PNone, PNone]) = 1
   \<and> load_entity example_loaders (Some example_loader) PNone (PStr ''12'') PNone PNone None True
        = (Inl (TypeError ''a pk has to be an integer''), [])
   \<and> load_entity example_loaders (Some example_loader) PNone (PInt 12) PNone PNone None True
        = (Inr 7, [\<lparr>call_identifier = PInt 12, call_identifier_type = Some ID,
                      call_sub_classes = None, call_query_with_dashes = True\<rparr>])
   \<and> load_entity example_loaders (Some example_loader) PNone PNone (PInt 12) PNone None True
        = (Inl (TypeError ''uuid has to be a string type''), [])
   \<and> load_entity example_loaders (Some example_loader) PNone PNone (PStr ''ab12'') PNone None True
        = (Inr 7, [\<lparr>call_identifier = PStr ''ab12'', call_identifier_type = Some UUID,
                      call_sub_classes = None, call_query_with_dashes = True\<rparr>])
   \<and> load_entity example_loaders (Some example_loader) PNone PNone PNone (PInt 3) None True
        = (Inl (TypeError ''label has to be a string type''), [])
   \<and> load_entity example_loaders (Some example_loader) PNone PNone PNone (PStr ''pw'') None True
        = (Inr 7, [\<lparr>call_identifier = PStr ''pw'', call_identifier_type = Some LABEL,
                      call_sub_classes = None, call_query_with_dashes = True\<rparr>])
   \<and> load_entity example_loaders (Some example_loader) (PInt 12) PNone PNone PNone None True
        = (Inr 7, [\<lparr>call_identifier = PStr ''12'', call_identifier_type = None,
                      call_sub_classes = None, call_query_with_dashes = True\<rparr>])"
  using load_entity_type_checks [of example_loader PNone "PStr ''12''" PNone PNone example_loaders None True]
        load_entity_type_checks [of example_loader PNone "PInt 12" PNone PNone example_loaders None True]
        load_entity_type_checks [of example_loader PNone PNone "PInt 12" PNone example_loaders None True]
        load_entity_type_checks [of example_loader PNone PNone "PStr ''ab12''" PNone example_loaders None True]
        load_entity_type_checks [of example_loader PNone PNone PNone "PInt 3" example_loaders None True]
        load_entity_type_checks [of example_loader PNone PNone PNone "PStr ''pw''" example_loaders None True]
        load_entity_type_checks [of example_loader "PInt 12" PNone PNone PNone example_loaders None True]
  by (simp add: example_loader_def example_loaders_def load_entity_def raise_def invoke_def
        int_str_def digit_char_def)

lemma load_workflow_none:
  "load_workflow W PNone PNone PNone =
     Inl (ValueError ''one of the parameters 'wf_id', 'pk' and 'uuid' has to be supplied'')"
  by (simp add: load_workflow_def)

lemma load_workflow_many:
  assumes "2 \<le> length (filter (\<lambda>v. v \<noteq> PNone) [wf_id, pk, uuid])"
  shows "load_workflow W wf_id pk uuid =
     Inl (ValueError ''only one of parameters 'wf_id', 'pk' and 'uuid' has to be supplied'')"
  using assms by (auto simp: load_workflow_def split: if_splits)

lemma load_workflow_pk:
  assumes "pk \<noteq> PNone"
  shows "load_workflow W PNone pk PNone =
     (if is_int pk then get_subclass_from_pk W pk
      else Inl (ValueError ([CHR 0x27] @ ''pk' has to be an integer'')))"
  using assms by (simp add: load_workflow_def)

lemma load_workflow_uuid:
  assumes "uuid \<noteq> PNone"
  shows "load_workflow W PNone PNone uuid =
     (if is_uuid_type uuid then get_subclass_from_uuid W (PStr (py_str uuid))
      else if is_string_type uuid then get_subclass_from_uuid W uuid
      else Inl (ValueError ([CHR 0x27] @ ''uuid' has to be a string, unicode or a UUID instance'')))"
  using assms by (cases uuid) (simp_all add: load_workflow_def)

lemma load_workflow_wf_id:
  assumes "wf_id \<noteq> PNone"
  shows "load_workflow W wf_id PNone PNone =
     (if is_uuid_type wf_id then get_subclass_from_uuid W (PStr (py_str wf_id))
      else if is_string_type wf_id then get_subclass_from_uuid W wf_id
      else if is_int wf_id then get_subclass_from_pk W wf_id
      else Inl (ValueError
               ([CHR 0x27] @ ''wf_id' has to be either string, unicode, integer or UUID instance, ''
                 @ type_repr wf_id @ '' given'')))"
  using assms by (cases wf_id) (simp_all add: load_workflow_def)

lemma is_int_not_None: "is_int v \<Longrightarrow> v \<noteq> PNone"
  by auto

lemma is_string_type_not_None: "is_string_type v \<Longrightarrow> v \<noteq> PNone"
  by auto

lemma is_uuid_type_not_None: "is_uuid_type v \<Longrightarrow> v \<noteq> PNone"
  by auto

lemma is_uuid_type_not_string: "is_uuid_type v \<Longrightarrow> \<not> is_string_type v"
  by (cases v) simp_all

text \<open>
  Claim C7. \<open>load_workflow\<close> raises \<open>ValueError\<close> when none of \<open>wf_id\<close>, \<open>pk\<close>, \<open>uuid\<close> is
  given and when two or more are; with a single one of the wrong type (a \<open>pk\<close> that is no
  integer, a \<open>uuid\<close> that is neither a string nor a \<open>UUID\<close>, a \<open>wf_id\<close> that is neither a
  string, an integer nor a \<open>UUID\<close>) it raises \<open>ValueError\<close> as well, never \<open>TypeError\<close>;
  otherwise its outcome is that of \<open>Workflow.get_subclass_from_pk\<close> for an integer and of
  \<open>Workflow.get_subclass_from_uuid\<close> for a string or for the \<open>str()\<close> of a \<open>UUID\<close>.
\<close>

theorem load_workflow_checks:
  "(wf_id = PNone \<and> pk = PNone \<and> uuid = PNone \<longrightarrow>
      (\<exists>msg. load_workflow W wf_id pk uuid = Inl (ValueError msg)))
 \<and> (2 \<le> length (filter (\<lambda>v. v \<noteq> PNone) [wf_id, pk, uuid]) \<longrightarrow>
      (\<exists>msg. load_workflow W wf_id pk uuid = Inl (ValueError msg)))
 \<and> (wf_id = PNone \<and> uuid = PNone \<and> pk \<noteq> PNone \<and> \<not> is_int pk \<longrightarrow>
      (\<exists>msg. load_workflow W wf_id pk uuid = Inl (ValueError msg)))
 \<and> (wf_id = PNone \<and> pk = PNone \<and> uuid \<noteq> PNone \<and> \<not> is_string_type uuid \<and> \<not> is_uuid_type uuid \<longrightarrow>
      (\<exists>msg. load_workflow W wf_id pk uuid = Inl (ValueError msg)))
 \<and> (pk = PNone \<and> uuid = PNone \<and> wf_id \<noteq> PNone
      \<and> \<not> is_string_type wf_id \<and> \<not> is_int wf_id \<and> \<not> is_uuid_type wf_id \<longrightarrow>
      (\<exists>msg. load_workflow W wf_id pk uuid = Inl (ValueError msg)))
 \<and> (wf_id = PNone \<and> uuid = PNone \<and> is_int pk \<longrightarrow>
      load_workflow W wf_id pk uuid = get_subclass_from_pk W pk)
 \<and> (wf_id = PNone \<and> pk = PNone \<and> is_string_type uuid \<longrightarrow>
      load_workflow W wf_id pk uuid = get_subclass_from_uuid W uuid)
 \<and> (wf_id = PNone \<and> pk = PNone \<and> is_uuid_type uuid \<longrightarrow>
      load_workflow W wf_id pk uuid = get_subclass_from_uuid W (PStr (py_str uuid)))
 \<and> (pk = PNone \<and> uuid = PNone \<and> is_int wf_id \<longrightarrow>
      load_workflow W wf_id pk uuid = get_subclass_from_pk W wf_id)
 \<and> (pk = PNone \<and> uuid = PNone \<and> is_string_type wf_id \<longrightarrow>
      load_workflow W wf_id pk uuid = get_subclass_from_uuid W wf_id)
 \<and> (pk = PNone \<and> uuid = PNone \<and> is_uuid_type wf_id \<longrightarrow>
      load_workflow W wf_id pk uuid = get_subclass_from_uuid W (PStr (py_str wf_id)))"
proof (intro conjI impI)
  assume "2 \<le> length (filter (\<lambda>v. v \<noteq> PNone) [wf_id, pk, uuid])"
  then show "\<exists>msg. load_workflow W wf_id pk uuid = Inl (ValueError msg)"
    by (simp only: load_workflow_many) blast
next
  assume "pk = PNone \<and> uuid = PNone \<and> is_int wf_id"
  then show "load_workflow W wf_id pk uuid = get_subclass_from_pk W wf_id"
    by (cases wf_id) (simp_all add: load_workflow_wf_id)
qed (auto simp: load_workflow_none load_workflow_pk load_workflow_uuid load_workflow_wf_id
       is_int_not_None is_string_type_not_None is_uuid_type_not_None is_uuid_type_not_string)

theorem load_workflow_checks_witness:
  "(\<exists>msg. load_workflow example_Workflow PNone PNone PNone = Inl (ValueError msg))
 \<and> 2 \<le> length (filter (\<lambda>v. v \<noteq> PNone) [PNone, PInt 4, PStr ''ab12''])
 \<and> (\<exists>msg. load_workflow example_Workflow PNone (PInt 4) (PStr ''ab12'') = Inl (ValueError msg))
 \<and> (\<exists>msg. load_workflow example_Workflow PNone (PStr ''4'') PNone = Inl (ValueError msg))
 \<and> (\<exists>msg. load_workflow example_Workflow PNone PNone (PInt 4) = Inl (ValueError msg))
 \<and> (\<exists>msg. load_workflow example_Workflow (PObject ''float'' ''0.5'' True) PNone PNone
        = Inl (ValueError msg))
 \<and> load_workflow example_Workflow PNone (PInt 4) PNone = Inr (''pk'', PInt 4)
 \<and> load_workflow example_Workflow PNone PNone (PStr ''ab12'') = Inr (''uuid'', PStr ''ab12'')
 \<and> load_workflow example_Workflow PNone PNone (PUUID ''ab12'') = Inr (''uuid'', PStr ''ab12'')
 \<and> load_workflow example_Workflow (PInt 4) PNone PNone = Inr (''pk'', PInt 4)
 \<and> load_workflow example_Workflow (PStr ''ab12'') PNone PNone = Inr (''uuid'', PStr ''ab12'')
 \<and> load_workflow example_Workflow (PUUID ''ab12'') PNone PNone = Inr (''uuid'', PStr ''ab12'')"
  using load_workflow_checks [of PNone PNone PNone example_Workflow]
        load_workflow_checks [of PNone "PInt 4" "PStr ''ab12''" example_Workflow]
        load_workflow_checks [of PNone "PStr ''4''" PNone example_Workflow]
        load_workflow_checks [of PNone PNone "PInt 4" example_Workflow]
        load_workflow_checks [of "PObject ''float'' ''0.5'' True" PNone PNone example_Workflow]
        load_workflow_checks [of PNone "PInt 4" PNone example_Workflow]
        load_workflow_checks [of PNone PNone "PStr ''ab12''" example_Workflow]
        load_workflow_checks [of PNone PNone "PUUID ''ab12''" example_Workflow]
        load_workflow_checks [of "PInt 4" PNone PNone example_Workflow]
        load_workflow_checks [of "PStr ''ab12''" PNone PNone example_Workflow]
        load_workflow_checks [of "PUUID ''ab12''" PNone PNone example_Workflow]
  by (simp add: example_Workflow_def)

section \<open>Properties of the Materials Project importer\<close>

lemma getitem_not_AttributeError: "getitem d k \<noteq> Inl (AttributeError msg)"
  by (simp add: getitem_def split: option.splits)

lemma except_getitem: "except_AttributeError (getitem d k) e = getitem d k"
  by (cases "d k") (simp_all add: getitem_def)

text \<open>
  Claim C8. \<open>MatProjImporter.query\<close> called without the keyword \<open>query\<close> raises
  \<open>KeyError\<close>, and so does a call with \<open>query\<close> but without \<open>collection\<close>. The two
  \<open>except AttributeError\<close> handlers are never entered: subscripting the keyword
  dictionary raises nothing but \<open>KeyError\<close>, so a handler leaves its outcome as it is, and
  \<open>query\<close> raises an \<open>AttributeError\<close> only where the REST client has raised it.
\<close>

theorem query_missing_keyword:
  "(kwargs ''query'' = None \<longrightarrow> query mpr kwargs = Inl (KeyError ''query''))
 \<and> (kwargs ''query'' \<noteq> None \<and> kwargs ''collection'' = None \<longrightarrow>
      query mpr kwargs = Inl (KeyError ''collection''))
 \<and> (\<forall>k handler. except_AttributeError (getitem kwargs k) handler = getitem kwargs k)
 \<and> (\<forall>k msg. getitem kwargs k \<noteq> Inl (AttributeError msg))
 \<and> (\<forall>msg. query mpr kwargs = Inl (AttributeError msg) \<longrightarrow>
      (\<exists>criteria properties. mpr criteria properties = Inl (AttributeError msg)))"
  by (auto simp: query_def except_getitem getitem_def find_def Let_def
           split: option.splits if_splits sum.splits)

theorem query_missing_keyword_witness:
  "[''collection'' \<mapsto> PStr ''structure''] ''query'' = None
 \<and> query example_mpr [''collection'' \<mapsto> PStr ''structure''] = Inl (KeyError ''query'')
 \<and> [''query'' \<mapsto> example_query] ''query'' \<noteq> None
 \<and> [''query'' \<mapsto> example_query] ''collection'' = None
 \<and> query example_mpr [''query'' \<mapsto> example_query] = Inl (KeyError ''collection'')
 \<and> query example_mpr Map.empty = Inl (KeyError ''query'')"
  using query_missing_keyword [of "[''collection'' \<mapsto> PStr ''structure'']" example_mpr]
        query_missing_keyword [of "[''query'' \<mapsto> example_query]" example_mpr]
        query_missing_keyword [of Map.empty example_mpr]
  by simp

text \<open>
  Claim C9, as stated, fails: \<open>query\<close> called with \<open>collection=None\<close> does not always
  raise \<open>ValueError('Unsupported collection: structures')\<close>. With a \<open>query\<close> argument that
  is no dictionary the type check, which comes before the collection is looked at, raises
  \<open>TypeError\<close>.
\<close>

theorem query_default_collection_counterexample:
  "query example_mpr [''query'' \<mapsto> PInt 5, ''collection'' \<mapsto> PNone]
     = Inl (TypeError ''The query argument should be a dictionary'')"
  by (simp add: query_def getitem_def is_dict_def)

text \<open>
  Claim C9, amended. \<open>query\<close> called with a dictionary as \<open>query\<close> and with
  \<open>collection=None\<close> raises \<open>ValueError('Unsupported collection: structures')\<close>, whatever
  the REST client would answer: \<open>None\<close> is replaced by the class attribute
  \<open>_collection = 'structures'\<close>, and the dispatch accepts \<open>'structure'\<close> only.
\<close>

theorem query_default_collection:
  assumes "kwargs ''query'' = Some q" and "is_dict q" and "kwargs ''collection'' = Some PNone"
  shows "query mpr kwargs = Inl (ValueError ''Unsupported collection: structures'')"
  using assms by (simp add: query_def getitem_def collection_attr_def)

theorem query_default_collection_witness:
  "[''query'' \<mapsto> example_query, ''collection'' \<mapsto> PNone] ''query'' = Some example_query
 \<and> is_dict example_query
 \<and> [''query'' \<mapsto> example_query, ''collection'' \<mapsto> PNone] ''collection'' = Some PNone
 \<and> query example_mpr [''query'' \<mapsto> example_query, ''collection'' \<mapsto> PNone]
      = Inl (ValueError ''Unsupported collection: structures'')"
  using query_default_collection
          [of "[''query'' \<mapsto> example_query, ''collection'' \<mapsto> PNone]" example_query example_mpr]
  by (simp add: example_query_def is_dict_def)

text \<open>
  Claim C10. After a call of \<open>setup_db\<close> that does not raise, \<open>self._api_key\<close> is the
  \<open>api_key\<close> argument. With \<open>api_key=None\<close> and \<open>PMG_MAPI_KEY\<close> set in the environment,
  the key read from the environment is overwritten at once: the key is verified with
  \<open>_api_key\<close> equal to \<open>None\<close>, and \<open>_api_key\<close> is left as \<open>None\<close>, whether the verification
  raises or not.
\<close>

theorem setup_db_api_key:
  "(snd (setup_db environ get self kwargs) = Inr () \<longrightarrow>
      (\<exists>api_key. kwargs ''api_key'' = Some api_key
         \<and> api_key_attr (fst (setup_db environ get self kwargs)) = Some api_key))
 \<and> (kwargs ''api_key'' = Some PNone \<and> environ ''PMG_MAPI_KEY'' = Some k \<longrightarrow>
      api_key_attr (fst (setup_db environ get self kwargs)) = Some PNone
      \<and> snd (setup_db environ get self kwargs)
          = verify_api_key get (self\<lparr>api_key_attr := Some PNone\<rparr>))"
  by (auto simp: setup_db_def getitem_def Let_def split: option.splits if_splits sum.splits)

theorem setup_db_api_key_witness:
  "snd (setup_db [''PMG_MAPI_KEY'' \<mapsto> ''secret''] example_get \<lparr>api_key_attr = None\<rparr>
          [''api_key'' \<mapsto> PNone]) = Inr ()
 \<and> [''api_key'' \<mapsto> PNone] ''api_key'' = Some PNone
 \<and> [''PMG_MAPI_KEY'' \<mapsto> ''secret''] ''PMG_MAPI_KEY'' = Some ''secret''
 \<and> api_key_attr (fst (setup_db [''PMG_MAPI_KEY'' \<mapsto> ''secret''] example_get
          \<lparr>api_key_attr = None\<rparr> [''api_key'' \<mapsto> PNone])) = Some PNone
 \<and> snd (setup_db Map.empty example_get \<lparr>api_key_attr = None\<rparr>
          [''api_key'' \<mapsto> PStr ''abc'']) = Inr ()
 \<and> api_key_attr (fst (setup_db Map.empty example_get \<lparr>api_key_attr = None\<rparr>
          [''api_key'' \<mapsto> PStr ''abc''])) = Some (PStr ''abc'')"
  using setup_db_api_key [of "[''PMG_MAPI_KEY'' \<mapsto> ''secret'']" example_get
          "\<lparr>api_key_attr = None\<rparr>" "[''api_key'' \<mapsto> PNone]" "''secret''"]
        setup_db_api_key [of Map.empty example_get
          "\<lparr>api_key_attr = None\<rparr>" "[''api_key'' \<mapsto> PStr ''abc'']" "''secret''"]
  by (simp add: setup_db_def getitem_def verify_api_key_def example_get_def)

section \<open>Properties of the COD query clauses\<close>

lemma check_values_rejects: "\<not> list_all acc vs \<Longrightarrow> check_values acc e vs = Inl e"
  by (induction vs) auto

lemma check_values_accepts: "list_all acc vs \<Longrightarrow> check_values acc e vs = Inr ()"
  by (induction vs) auto

lemma int_all_converts:
  "list_all (\<lambda>v. \<not> isl (py_int v)) vs \<Longrightarrow> \<exists>ns. int_all vs = Inr ns"
  by (induction vs) (auto split: sum.splits)

lemma py_int_string_error:
  assumes "is_int v \<or> is_string_type v" and "py_int v = Inl e"
  shows "\<exists>s. e = ValueError (''invalid literal for int() with base 10: '' @ [CHR 0x27] @ s @ [CHR 0x27])"
  using assms by (cases v) (auto simp: int_of_string_def Let_def split: if_splits)

lemma int_all_fails:
  "list_all (\<lambda>v. is_int v \<or> is_string_type v) vs \<Longrightarrow> \<not> list_all (\<lambda>v. \<not> isl (py_int v)) vs \<Longrightarrow>
   \<exists>s. int_all vs = Inl (ValueError
          (''invalid literal for int() with base 10: '' @ [CHR 0x27] @ s @ [CHR 0x27]))"
proof (induction vs)
  case Nil
  then show ?case by simp
next
  case (Cons v vs)
  show ?case
  proof (cases "py_int v")
    case (Inl e)
    with Cons.prems(1) py_int_string_error [of v e] show ?thesis by auto
  next
    case (Inr i)
    with Cons show ?thesis by (auto split: sum.splits)
  qed
qed

lemma is_int_converts: "is_int v \<Longrightarrow> \<not> isl (py_int v)"
  by (cases v) simp_all

text \<open>
  The model gives, for every method and every value of \<open>test_datatype_checks\<close>, the
  message the test expects (its table \<open>results\<close>, row by row).
\<close>

lemma test_datatype_checks:
  "map (\<lambda>method. map (\<lambda>v. caught_message (method ''test'' ''test'' [v])) test_values) test_methods
   = map (map (\<lambda>i. Some (test_messages ! i)))
       [[0, 4, 4, 0, 1, 1],
        [0, 0, 0, 0, 1, 1],
        [2, 0, 2, 0, 2, 2],
        [0, 0, 0, 0, 1, 1],
        [2, 0, 0, 0, 2, 2],
        [0, 3, 3, 3, 0, 3]]"
  by code_simp

text \<open>
  Claim C5, as stated, fails in its last part, "values of accepted types raise no
  \<open>ValueError\<close>": \<open>_int_clause\<close> accepts strings, and for the string \<open>'text'\<close> it raises the
  \<open>ValueError\<close> of \<open>int()\<close>, as the test expects (\<open>results[0][1] = 4\<close>).
\<close>

theorem int_clause_accepted_counterexample:
  "is_string_type (PStr ''text'')
   \<and> int_clause ''test'' ''test'' [PStr ''text'']
       = Inl (ValueError (''invalid literal for int() with base 10: 'text'' @ [CHR 0x27]))"
  by (simp add: int_clause_def int_of_string_def strip_def is_space_def is_digit_def Let_def)

text \<open>
  Claim C5, amended. Each clause builder raises \<open>ValueError\<close> with its own message as soon
  as one value is of a class it does not accept: "only integers and strings are accepted"
  for \<open>_int_clause\<close>, \<open>_str_exact_clause\<close> and \<open>_str_fuzzy_clause\<close>, "only strings are
  accepted" for \<open>_formula_clause\<close> (which takes no \<open>unicode\<close>) and \<open>_composition_clause\<close>,
  "only integers and floats are accepted" for \<open>_volume_clause\<close>; in particular
  \<open>_int_clause\<close> does for a float and \<open>_volume_clause\<close> for a string, with the keyword
  \<open>'test'\<close>. Values of accepted classes raise nothing in the five builders other than
  \<open>_int_clause\<close>. In \<open>_int_clause\<close> integers raise nothing, and accepted values raise
  nothing if \<open>int()\<close> converts them all; otherwise the \<open>ValueError\<close> raised is that of
  \<open>int()\<close>, "invalid literal for int() with base 10: ...".
\<close>

theorem clause_datatype_checks:
  "(\<not> list_all (\<lambda>v. is_int v \<or> is_string_type v) vals \<longrightarrow>
      int_clause key alias vals = Inl (incorrect_value alias ''integers and strings'')
    \<and> str_exact_clause key alias vals = Inl (incorrect_value alias ''integers and strings'')
    \<and> str_fuzzy_clause key alias vals = Inl (incorrect_value alias ''integers and strings''))
 \<and> (\<not> list_all is_str vals \<longrightarrow>
      formula_clause key alias vals = Inl (incorrect_value alias ''strings''))
 \<and> (\<not> list_all is_string_type vals \<longrightarrow>
      composition_clause key alias vals = Inl (incorrect_value alias ''strings''))
 \<and> (\<not> list_all (\<lambda>v. is_int v \<or> is_float v) vals \<longrightarrow>
      volume_clause key alias vals = Inl (incorrect_value alias ''integers and floats''))
 \<and> (is_float x \<longrightarrow> int_clause key ''test'' [x] = Inl (ValueError
      ''incorrect value for keyword 'test' -- only integers and strings are accepted''))
 \<and> (is_string_type x \<longrightarrow> volume_clause key ''test'' [x] = Inl (ValueError
      ''incorrect value for keyword 'test' -- only integers and floats are accepted''))
 \<and> (list_all (\<lambda>v. is_int v \<or> is_string_type v) vals \<longrightarrow>
      str_exact_clause key alias vals = Inr () \<and> str_fuzzy_clause key alias vals = Inr ())
 \<and> (list_all is_str vals \<longrightarrow> formula_clause key alias vals = Inr ())
 \<and> (list_all is_string_type vals \<longrightarrow> composition_clause key alias vals = Inr ())
 \<and> (list_all (\<lambda>v. is_int v \<or> is_float v) vals \<longrightarrow> volume_clause key alias vals = Inr ())
 \<and> (list_all is_int vals \<longrightarrow> int_clause key alias vals = Inr ())
 \<and> (list_all (\<lambda>v. is_int v \<or> is_string_type v) vals \<longrightarrow>
      (if list_all (\<lambda>v. \<not> isl (py_int v)) vals
       then int_clause key alias vals = Inr ()
       else \<exists>s. int_clause key alias vals = Inl (ValueError
              (''invalid literal for int() with base 10: '' @ [CHR 0x27] @ s @ [CHR 0x27]))))"
proof -
  have r1: "\<not> list_all (\<lambda>v. is_int v \<or> is_string_type v) vals \<longrightarrow>
      int_clause key alias vals = Inl (incorrect_value alias ''integers and strings'')
    \<and> str_exact_clause key alias vals = Inl (incorrect_value alias ''integers and strings'')
    \<and> str_fuzzy_clause key alias vals = Inl (incorrect_value alias ''integers and strings'')"
    by (simp add: int_clause_def str_exact_clause_def str_fuzzy_clause_def check_values_rejects)
  have r2: "\<not> list_all is_str vals \<longrightarrow>
      formula_clause key alias vals = Inl (incorrect_value alias ''strings'')"
    by (simp add: formula_clause_def check_values_rejects)
  have r3: "\<not> list_all is_string_type vals \<longrightarrow>
      composition_clause key alias vals = Inl (incorrect_value alias ''strings'')"
    by (simp add: composition_clause_def check_values_rejects)
  have r4: "\<not> list_all (\<lambda>v. is_int v \<or> is_float v) vals \<longrightarrow>
      volume_clause key alias vals = Inl (incorrect_value alias ''integers and floats'')"
    by (simp add: volume_clause_def check_values_rejects)
  have p1: "is_float x \<longrightarrow> int_clause key ''test'' [x] = Inl (ValueError
      ''incorrect value for keyword 'test' -- only integers and strings are accepted'')"
    by (cases x) (simp_all add: int_clause_def is_float_def incorrect_value_def)
  have p2: "is_string_type x \<longrightarrow> volume_clause key ''test'' [x] = Inl (ValueError
      ''incorrect value for keyword 'test' -- only integers and floats are accepted'')"
    by (cases x) (simp_all add: volume_clause_def is_float_def incorrect_value_def)
  have a1: "list_all (\<lambda>v. is_int v \<or> is_string_type v) vals \<longrightarrow>
      str_exact_clause key alias vals = Inr () \<and> str_fuzzy_clause key alias vals = Inr ()"
    by (simp add: str_exact_clause_def str_fuzzy_clause_def check_values_accepts)
  have a2: "list_all is_str vals \<longrightarrow> formula_clause key alias vals = Inr ()"
    by (simp add: formula_clause_def check_values_accepts)
  have a3: "list_all is_string_type vals \<longrightarrow> composition_clause key alias vals = Inr ()"
    by (simp add: composition_clause_def check_values_accepts)
  have a4: "list_all (\<lambda>v. is_int v \<or> is_float v) vals \<longrightarrow> volume_clause key alias vals = Inr ()"
    by (simp add: volume_clause_def check_values_accepts)
  have a6: "list_all (\<lambda>v. is_int v \<or> is_string_type v) vals \<longrightarrow>
      (if list_all (\<lambda>v. \<not> isl (py_int v)) vals
       then int_clause key alias vals = Inr ()
       else \<exists>s. int_clause key alias vals = Inl (ValueError
              (''invalid literal for int() with base 10: '' @ [CHR 0x27] @ s @ [CHR 0x27])))"
  proof (intro impI)
    assume acc: "list_all (\<lambda>v. is_int v \<or> is_string_type v) vals"
    show "if list_all (\<lambda>v. \<not> isl (py_int v)) vals
       then int_clause key alias vals = Inr ()
       else \<exists>s. int_clause key alias vals = Inl (ValueError
              (''invalid literal for int() with base 10: '' @ [CHR 0x27] @ s @ [CHR 0x27]))"
    proof (cases "list_all (\<lambda>v. \<not> isl (py_int v)) vals")
      case True
      from int_all_converts [OF True] obtain ns where "int_all vals = Inr ns" ..
      with acc True show ?thesis
        by (simp add: int_clause_def check_values_accepts)
    next
      case False
      from int_all_fails [OF acc False] obtain s where "int_all vals = Inl (ValueError
          (''invalid literal for int() with base 10: '' @ [CHR 0x27] @ s @ [CHR 0x27]))" ..
      with acc False show ?thesis
        by (simp add: int_clause_def check_values_accepts)
    qed
  qed
  have a5: "list_all is_int vals \<longrightarrow> int_clause key alias vals = Inr ()"
  proof
    assume i: "list_all is_int vals"
    then have "list_all (\<lambda>v. is_int v \<or> is_string_type v) vals"
      and "list_all (\<lambda>v. \<not> isl (py_int v)) vals"
      by (simp_all add: list_all_iff is_int_converts)
    with a6 show "int_clause key alias vals = Inr ()" by simp
  qed
  from r1 r2 r3 r4 p1 p2 a1 a2 a3 a4 a5 a6 show ?thesis by (intro conjI)
qed

theorem clause_datatype_checks_witness:
  "\<not> list_all (\<lambda>v. is_int v \<or> is_string_type v) [PObject ''float'' ''0.333333333333'' True]
 \<and> is_float (PObject ''float'' ''0.333333333333'' True)
 \<and> int_clause ''test'' ''test'' [PObject ''float'' ''0.333333333333'' True]
      = Inl (ValueError ''incorrect value for keyword 'test' -- only integers and strings are accepted'')
 \<and> str_exact_clause ''test'' ''test'' [PObject ''float'' ''0.333333333333'' True]
      = Inl (ValueError ''incorrect value for keyword 'test' -- only integers and strings are accepted'')
 \<and> \<not> list_all is_str [PUnicode ''text'']
 \<and> formula_clause ''test'' ''test'' [PUnicode ''text'']
      = Inl (ValueError ''incorrect value for keyword 'test' -- only strings are accepted'')
 \<and> \<not> list_all is_string_type [PInt 10]
 \<and> composition_clause ''test'' ''test'' [PInt 10]
      = Inl (ValueError ''incorrect value for keyword 'test' -- only strings are accepted'')
 \<and> \<not> list_all (\<lambda>v. is_int v \<or> is_float v) [PStr ''10'']
 \<and> is_string_type (PStr ''10'')
 \<and> volume_clause ''test'' ''test'' [PStr ''10'']
      = Inl (ValueError ''incorrect value for keyword 'test' -- only integers and floats are accepted'')
 \<and> list_all (\<lambda>v. is_int v \<or> is_string_type v) [PInt 10, PStr ''10'']
 \<and> list_all (\<lambda>v. \<not> isl (py_int v)) [PInt 10, PStr ''10'']
 \<and> int_clause ''test'' ''test'' [PInt 10, PStr ''10''] = Inr ()
 \<and> str_exact_clause ''test'' ''test'' [PInt 10, PStr ''10''] = Inr ()
 \<and> str_fuzzy_clause ''test'' ''test'' [PInt 10, PStr ''10''] = Inr ()
 \<and> list_all is_str [PStr ''text'']
 \<and> formula_clause ''test'' ''test'' [PStr ''text''] = Inr ()
 \<and> list_all is_string_type [PStr ''text'', PUnicode ''text'']
 \<and> composition_clause ''test'' ''test'' [PStr ''text'', PUnicode ''text''] = Inr ()
 \<and> list_all (\<lambda>v. is_int v \<or> is_float v) [PInt 10, PObject ''float'' ''0.333333333333'' True]
 \<and> volume_clause ''test'' ''test'' [PInt 10, PObject ''float'' ''0.333333333333'' True] = Inr ()
 \<and> list_all is_int [PInt 10]
 \<and> int_clause ''test'' ''test'' [PInt 10] = Inr ()
 \<and> list_all (\<lambda>v. is_int v \<or> is_string_type v) [PUnicode ''text'']
 \<and> \<not> list_all (\<lambda>v. \<not> isl (py_int v)) [PUnicode ''text'']
 \<and> (\<exists>s. int_clause ''test'' ''test'' [PUnicode ''text''] = Inl (ValueError
        (''invalid literal for int() with base 10: '' @ [CHR 0x27] @ s @ [CHR 0x27])))"
  using clause_datatype_checks [of "[PObject ''float'' ''0.333333333333'' True]" "''test''" "''test''"
          "PObject ''float'' ''0.333333333333'' True"]
        clause_datatype_checks [of "[PUnicode ''text'']" "''test''" "''test''" "PStr ''10''"]
        clause_datatype_checks [of "[PInt 10]" "''test''" "''test''" "PStr ''10''"]
        clause_datatype_checks [of "[PStr ''10'']" "''test''" "''test''" "PStr ''10''"]
        clause_datatype_checks [of "[PInt 10, PStr ''10'']" "''test''" "''test''" "PStr ''10''"]
        clause_datatype_checks [of "[PStr ''text'']" "''test''" "''test''" "PStr ''10''"]
        clause_datatype_checks [of "[PStr ''text'', PUnicode ''text'']" "''test''" "''test''" "PStr ''10''"]
        clause_datatype_checks [of "[PInt 10, PObject ''float'' ''0.333333333333'' True]"
          "''test''" "''test''" "PStr ''10''"]
  by (simp add: is_float_def incorrect_value_def int_of_string_def strip_def is_space_def
        is_digit_def Let_def)

section \<open>Properties of the archive commands\<close>

lemma migrate_archive_version:
  "export_version a \<le> target \<Longrightarrow> export_version (migrate_archive M target a) = target"
proof (induction M target a rule: migrate_archive.induct)
  case (1 M target a)
  show ?case
  proof (cases "export_version a < target")
    case True
    then show ?thesis using "1.IH" by (subst migrate_archive.simps) simp
  next
    case False
    with "1.prems" show ?thesis by (subst migrate_archive.simps) simp
  qed
qed

lemma migrate_archive_chain:
  "export_version a \<le> mid \<Longrightarrow> mid \<le> target \<Longrightarrow>
   migrate_archive M target (migrate_archive M mid a) = migrate_archive M target a"
proof (induction M mid a rule: migrate_archive.induct)
  case (1 M mid a)
  show ?case
  proof (cases "export_version a < mid")
    case True
    have "migrate_archive M mid a = migrate_archive M mid
             (a\<lparr>export_version := export_version a + 1,
                data := migrate_step M (export_version a) (data a)\<rparr>)"
      using True by (subst migrate_archive.simps) simp
    moreover have "migrate_archive M target a = migrate_archive M target
             (a\<lparr>export_version := export_version a + 1,
                data := migrate_step M (export_version a) (data a)\<rparr>)"
      using True "1.prems" by (subst migrate_archive.simps) simp
    ultimately show ?thesis using "1.IH" [OF True] True "1.prems" by simp
  next
    case False
    then have "migrate_archive M mid a = a" by (subst migrate_archive.simps) simp
    then show ?thesis by simp
  qed
qed

lemma valid_archive_at_update:
  "export_version a = v \<Longrightarrow> valid_archive_at (fs(dest \<mapsto> Container fmt a)) dest fmt v"
  by (cases fmt) (simp_all add: valid_archive_at_def is_tarfile_def is_valid_zip_def
        metadata_export_version_def)

lemma migrate_writes:
  assumes "fs (input_file opts) = Some (Container f a)"
    and "destination fs opts = Inr dest"
    and "export_version a < target" and "target \<le> EXPORT_VERSION M"
    and "target = (case version opts of None \<Rightarrow> EXPORT_VERSION M | Some v \<Rightarrow> v)"
  shows "migrate M fs opts =
           (fs(dest \<mapsto> Container (archive_format opts) (migrate_archive M target a)), success '''')"
  using assms by (simp add: migrate_def Let_def)

lemma migrate_succeeds:
  assumes "fs (input_file opts) = Some (Container f a)"
    and "destination fs opts = Inr dest"
    and "export_version a < target" and "target \<le> EXPORT_VERSION M"
    and "target = (case version opts of None \<Rightarrow> EXPORT_VERSION M | Some v \<Rightarrow> v)"
  shows "exit_code (snd (migrate M fs opts)) = 0
       \<and> valid_archive_at (fst (migrate M fs opts)) dest (archive_format opts) target"
  using migrate_writes [OF assms] assms(3)
  by (simp add: success_def valid_archive_at_update migrate_archive_version)

lemma destination_in_place:
  "in_place opts \<Longrightarrow> output_file opts = None \<Longrightarrow> destination fs opts = Inr (input_file opts)"
  by (simp add: destination_def)

lemma destination_output:
  "\<not> in_place opts \<Longrightarrow> output_file opts = Some p \<Longrightarrow> force opts \<or> fs p = None \<Longrightarrow>
   destination fs opts = Inr p"
  by (auto simp: destination_def)

text \<open>
  Claim C3. For an archive file of a version older than the target version \<open>v\<close>, with \<open>v\<close>
  no later than \<open>EXPORT_VERSION\<close>, \<open>migrate --version v\<close> succeeds (exit code 0) and leaves
  a valid zip, or a tar.gz when that format is selected, whose metadata \<open>export_version\<close>
  is \<open>v\<close>: in place of the input file with \<open>--in-place\<close>, and at the output file
  otherwise (an output file that does not exist yet, or \<open>--force\<close>).
\<close>

theorem migrate_version_specific:
  assumes "fs (input_file opts) = Some (Container f a)"
    and "export_version a < v" and "v \<le> EXPORT_VERSION M"
    and "version opts = Some v"
  shows "(in_place opts \<and> output_file opts = None \<longrightarrow>
            exit_code (snd (migrate M fs opts)) = 0
          \<and> valid_archive_at (fst (migrate M fs opts)) (input_file opts) (archive_format opts) v)
       \<and> (\<forall>p. \<not> in_place opts \<and> output_file opts = Some p \<and> (force opts \<or> fs p = None) \<longrightarrow>
            exit_code (snd (migrate M fs opts)) = 0
          \<and> valid_archive_at (fst (migrate M fs opts)) p (archive_format opts) v)"
proof -
  have a: "exit_code (snd (migrate M fs opts)) = 0
          \<and> valid_archive_at (fst (migrate M fs opts)) (input_file opts) (archive_format opts) v"
    if "in_place opts \<and> output_file opts = None"
  proof -
    from that have "destination fs opts = Inr (input_file opts)"
      by (simp add: destination_in_place)
    from migrate_succeeds [OF assms(1) this assms(2,3)] assms(4) show ?thesis by simp
  qed
  have b: "exit_code (snd (migrate M fs opts)) = 0
          \<and> valid_archive_at (fst (migrate M fs opts)) p (archive_format opts) v"
    if "\<not> in_place opts \<and> output_file opts = Some p \<and> (force opts \<or> fs p = None)" for p
  proof -
    from that have "destination fs opts = Inr p"
      by (simp add: destination_output)
    from migrate_succeeds [OF assms(1) this assms(2,3)] assms(4) show ?thesis by simp
  qed
  from a b show ?thesis by blast
qed

theorem migrate_version_specific_witness:
  "example_fs ''export_v0.1_simple.aiida'' = Some (Container Zip \<lparr>export_version = 1, data = []\<rparr>)
 \<and> export_version \<lparr>export_version = 1, data = ([] :: nat list)\<rparr> < 2
 \<and> 2 \<le> EXPORT_VERSION example_migrations
 \<and> example_fs ''out.aiida'' = None
 \<and> exit_code (snd (migrate example_migrations example_fs
      \<lparr>input_file = ''export_v0.1_simple.aiida'', output_file = Some ''out.aiida'',
       in_place = False, force = False, version = Some 2, archive_format = Zip\<rparr>)) = 0
 \<and> valid_archive_at (fst (migrate example_migrations example_fs
      \<lparr>input_file = ''export_v0.1_simple.aiida'', output_file = Some ''out.aiida'',
       in_place = False, force = False, version = Some 2, archive_format = Zip\<rparr>))
      ''out.aiida'' Zip 2
 \<and> exit_code (snd (migrate example_migrations example_fs
      \<lparr>input_file = ''export_v0.1_simple.aiida'', output_file = None,
       in_place = True, force = False, version = Some 2, archive_format = TarGz\<rparr>)) = 0
 \<and> valid_archive_at (fst (migrate example_migrations example_fs
      \<lparr>input_file = ''export_v0.1_simple.aiida'', output_file = None,
       in_place = True, force = False, version = Some 2, archive_format = TarGz\<rparr>))
      ''export_v0.1_simple.aiida'' TarGz 2"
  using migrate_version_specific [of example_fs
          "\<lparr>input_file = ''export_v0.1_simple.aiida'', output_file = Some ''out.aiida'',
            in_place = False, force = False, version = Some 2, archive_format = Zip\<rparr>"
          Zip "\<lparr>export_version = 1, data = []\<rparr>" 2 example_migrations]
        migrate_version_specific [of example_fs
          "\<lparr>input_file = ''export_v0.1_simple.aiida'', output_file = None,
            in_place = True, force = False, version = Some 2, archive_format = TarGz\<rparr>"
          Zip "\<lparr>export_version = 1, data = []\<rparr>" 2 example_migrations]
  by (simp add: example_fs_def example_migrations_def)

text \<open>
  Claim C4. For an archive file of a version older than \<open>EXPORT_VERSION\<close>, \<open>migrate\<close>
  without a target version succeeds and writes a valid archive of the latest version (a
  valid zip unless tar.gz is selected) to the output file. The migration is chainable:
  the archive written is the one reached by migrating to any intermediate version first
  and on to the latest version from there.
\<close>

theorem migrate_versions_old:
  assumes "fs (input_file opts) = Some (Container f a)"
    and "export_version a < EXPORT_VERSION M"
    and "version opts = None"
    and "\<not> in_place opts" and "output_file opts = Some p" and "force opts \<or> fs p = None"
  shows "exit_code (snd (migrate M fs opts)) = 0
       \<and> valid_archive_at (fst (migrate M fs opts)) p (archive_format opts) (EXPORT_VERSION M)
       \<and> (archive_format opts \<noteq> TarGz \<longrightarrow>
            (\<exists>f'. fst (migrate M fs opts) p = Some f' \<and> is_valid_zip f'))
       \<and> (\<forall>mid. export_version a \<le> mid \<and> mid \<le> EXPORT_VERSION M \<longrightarrow>
            fst (migrate M fs opts) p =
              Some (Container (archive_format opts)
                     (migrate_archive M (EXPORT_VERSION M) (migrate_archive M mid a))))"
proof -
  have d: "destination fs opts = Inr p"
    using assms(4-6) by (simp add: destination_output)
  have t: "EXPORT_VERSION M = (case version opts of None \<Rightarrow> EXPORT_VERSION M | Some v \<Rightarrow> v)"
    using assms(3) by simp
  have w: "migrate M fs opts =
      (fs(p \<mapsto> Container (archive_format opts) (migrate_archive M (EXPORT_VERSION M) a)), success '''')"
    using migrate_writes [OF assms(1) d assms(2) order_refl t] .
  have s: "exit_code (snd (migrate M fs opts)) = 0
       \<and> valid_archive_at (fst (migrate M fs opts)) p (archive_format opts) (EXPORT_VERSION M)"
    using migrate_succeeds [OF assms(1) d assms(2) order_refl t] .
  have z: "archive_format opts \<noteq> TarGz \<longrightarrow>
            (\<exists>f'. fst (migrate M fs opts) p = Some f' \<and> is_valid_zip f')"
    using w by (cases "archive_format opts") (simp_all add: is_valid_zip_def)
  have c: "\<forall>mid. export_version a \<le> mid \<and> mid \<le> EXPORT_VERSION M \<longrightarrow>
            fst (migrate M fs opts) p =
              Some (Container (archive_format opts)
                     (migrate_archive M (EXPORT_VERSION M) (migrate_archive M mid a)))"
    using w by (simp add: migrate_archive_chain)
  from s z c show ?thesis by blast
qed

theorem migrate_versions_old_witness:
  "example_fs ''export_v0.1_simple.aiida'' = Some (Container Zip \<lparr>export_version = 1, data = []\<rparr>)
 \<and> export_version \<lparr>export_version = 1, data = ([] :: nat list)\<rparr> < EXPORT_VERSION example_migrations
 \<and> example_fs ''out.aiida'' = None
 \<and> exit_code (snd (migrate example_migrations example_fs
      \<lparr>input_file = ''export_v0.1_simple.aiida'', output_file = Some ''out.aiida'',
       in_place = False, force = False, version = None, archive_format = Zip\<rparr>)) = 0
 \<and> valid_archive_at (fst (migrate example_migrations example_fs
      \<lparr>input_file = ''export_v0.1_simple.aiida'', output_file = Some ''out.aiida'',
       in_place = False, force = False, version = None, archive_format = Zip\<rparr>))
      ''out.aiida'' Zip 9
 \<and> fst (migrate example_migrations example_fs
      \<lparr>input_file = ''export_v0.1_simple.aiida'', output_file = Some ''out.aiida'',
       in_place = False, force = False, version = None, archive_format = Zip\<rparr>) ''out.aiida''
    = Some (Container Zip (migrate_archive example_migrations 9
              (migrate_archive example_migrations 4 \<lparr>export_version = 1, data = []\<rparr>)))"
  using migrate_versions_old [of example_fs
          "\<lparr>input_file = ''export_v0.1_simple.aiida'', output_file = Some ''out.aiida'',
            in_place = False, force = False, version = None, archive_format = Zip\<rparr>"
          Zip "\<lparr>export_version = 1, data = []\<rparr>" example_migrations "''out.aiida''"]
  by (simp add: example_fs_def example_migrations_def)

text \<open>
  Claim C6. \<open>inspect\<close> on a file that is no archive container, the empty file for one,
  fails: its exit code is not zero and its output contains "corrupt archive".
\<close>

theorem inspect_corrupt_archive:
  assumes "fs path = Some (Other bytes)"
  shows "exit_code (inspect describe fs path) \<noteq> 0
       \<and> sublist ''corrupt archive'' (cli_output (inspect describe fs path))"
  using assms by (simp add: inspect_def failure_def)

theorem inspect_corrupt_archive_witness:
  "example_fs ''empty.aiida'' = Some (Other [])
 \<and> exit_code (inspect (\<lambda>a. ''archive'') example_fs ''empty.aiida'') \<noteq> 0
 \<and> sublist ''corrupt archive'' (cli_output (inspect (\<lambda>a. ''archive'') example_fs ''empty.aiida''))"
  using inspect_corrupt_archive [of example_fs "''empty.aiida''" "[]" "\<lambda>a. ''archive''"]
  by (simp add: example_fs_def)

end
